theory Spec2Isabelle
  imports Main "HOL-Library.Sublist"
begin

section \<open>JavaScript values shared by the script and the service\<close>

text \<open>
  A JavaScript string is modelled as a \<open>string\<close>. A value that is either a string or
  \<open>undefined\<close> (an entry of \<open>process.env\<close>, a property of an error or of a receipt) is a
  \<open>string option\<close>, with \<open>None\<close> for \<open>undefined\<close>.

  A \<open>char\<close> is a byte; every pattern, literal and substring of the source is ASCII.
  A thrown value is taken to be an \<open>Error\<close> object, as those of \<open>ethers\<close>, of the EAS SDK
  and of the database driver are.

  Console output (\<open>log\<close>, \<open>logInfo\<close>, \<open>logSuccess\<close>, \<open>logWarning\<close>, \<open>logError\<close>) only prints
  and is left out of the model; the calls on the provider, the signer, the registry and the
  pending transaction are recorded as a list of \<open>effect\<close>s.
\<close>

type_synonym jstr = "string option"

text \<open>An \<open>Error\<close> object as the handlers read it: \<open>error.code\<close> and \<open>error.message\<close>.\<close>

record js_error =
  code :: jstr
  message :: jstr

text \<open>\<open>new Error(msg)\<close>: the message is set and there is no \<open>code\<close> property.\<close>

definition Error :: "string \<Rightarrow> js_error" where
  "Error msg = \<lparr>code = None, message = Some msg\<rparr>"

text \<open>What V8 throws when a property of \<open>undefined\<close> is read.\<close>

definition TypeError :: "string \<Rightarrow> js_error" where
  "TypeError prop =
     Error (''Cannot read properties of undefined (reading '' @ [CHR 0x27] @ prop @ [CHR 0x27] @ '')'')"

text \<open>Truthiness of a string-or-undefined value: \<open>undefined\<close> and \<open>''''\<close> are falsy.\<close>

fun truthy :: "jstr \<Rightarrow> bool" where
  "truthy None = False"
| "truthy (Some s) = (s \<noteq> [])"

text \<open>String conversion, as in a template literal or in \<open>RegExp.prototype.test\<close>.\<close>

fun toString :: "jstr \<Rightarrow> string" where
  "toString None = ''undefined''"
| "toString (Some s) = s"

text \<open>\<open>a || b\<close> on string-or-undefined values.\<close>

definition js_or :: "jstr \<Rightarrow> jstr \<Rightarrow> jstr" where
  "js_or a b = (if truthy a then a else b)"

text \<open>\<open>String.prototype.includes\<close>: does \<open>sub\<close> occur in \<open>s\<close> as a contiguous run?\<close>

fun includes_str :: "string \<Rightarrow> string \<Rightarrow> bool" where
  "includes_str [] sub = (sub = [])"
| "includes_str (c # cs) sub = (prefix sub (c # cs) \<or> includes_str cs sub)"

text \<open>\<open>String.prototype.startsWith\<close>.\<close>

definition startsWith :: "string \<Rightarrow> string \<Rightarrow> bool" where
  "startsWith s p = prefix p s"

text \<open>\<open>Array.prototype.join\<close> on an array of strings.\<close>

fun join :: "string \<Rightarrow> string list \<Rightarrow> string" where
  "join sep [] = []"
| "join sep [x] = x"
| "join sep (x # y # ys) = x @ sep @ join sep (y # ys)"

definition newline :: string where
  "newline = [CHR 0x0A]"


section \<open>Regular expressions of the validation step\<close>

text \<open>
  The two patterns of \<open>validateEnvironment\<close> use literals, one character class, \<open>?\<close> and a
  counted repetition \<open>{n}\<close>, anchored at both ends. \<open>rmatch r s\<close> lists the remainders of
  \<open>s\<close> after every way of matching \<open>r\<close> at its start, in the order a backtracking matcher
  tries them (\<open>?\<close> is greedy); \<open>{n}\<close> is \<open>n\<close> copies in sequence.
\<close>

datatype regex =
    Eps
  | Lit string
  | Class "(char \<times> char) list"
  | Opt regex
  | Seq regex regex

fun in_class :: "(char \<times> char) list \<Rightarrow> char \<Rightarrow> bool" where
  "in_class [] c = False"
| "in_class ((lo, hi) # rs) c =
     (((of_char lo :: nat) \<le> of_char c \<and> (of_char c :: nat) \<le> of_char hi) \<or> in_class rs c)"

fun rmatch :: "regex \<Rightarrow> string \<Rightarrow> string list" where
  "rmatch Eps s = [s]"
| "rmatch (Lit l) s = (if prefix l s then [drop (length l) s] else [])"
| "rmatch (Class rs) s = (case s of [] \<Rightarrow> [] | c # cs \<Rightarrow> if in_class rs c then [cs] else [])"
| "rmatch (Opt r) s = rmatch r s @ [s]"
| "rmatch (Seq a b) s = concat (map (rmatch b) (rmatch a s))"

fun rep :: "nat \<Rightarrow> regex \<Rightarrow> regex" where
  "rep 0 r = Eps"
| "rep (Suc n) r = Seq r (rep n r)"

text \<open>\<open>/^r$/.test(s)\<close>: some way of matching \<open>r\<close> consumes the whole of \<open>s\<close>.\<close>

definition test :: "regex \<Rightarrow> string \<Rightarrow> bool" where
  "test r s = ([] \<in> set (rmatch r s))"

text \<open>\<open>[0-9a-fA-F]\<close>\<close>

definition hex_class :: regex where
  "hex_class = Class [(CHR ''0'', CHR ''9''), (CHR ''a'', CHR ''f''), (CHR ''A'', CHR ''F'')]"

text \<open>\<open>/^(0x)?[0-9a-fA-F]{64}$/\<close>\<close>

definition private_key_re :: regex where
  "private_key_re = Seq (Opt (Lit ''0x'')) (rep 64 hex_class)"

text \<open>\<open>/^0x[0-9a-fA-F]{40}$/\<close>\<close>

definition registry_address_re :: regex where
  "registry_address_re = Seq (Lit ''0x'') (rep 40 hex_class)"


section \<open>The registration script: \<open>validateEnvironment\<close>\<close>

text \<open>\<open>process.env\<close>: a setting is a string or absent.\<close>

type_synonym env = "string \<rightharpoonup> string"

record config =
  rpcUrl :: jstr
  privateKey :: string
  schemaRegistryAddress :: jstr

definition requiredVars :: "string list" where
  "requiredVars = [''RPC_URL'', ''PRIVATE_KEY'', ''SCHEMA_REGISTRY_ADDRESS'']"

text \<open>The loop that pushes every \<open>varName\<close> with \<open>!process.env[varName]\<close>.\<close>

fun collect_missing :: "env \<Rightarrow> string list \<Rightarrow> string list \<Rightarrow> string list" where
  "collect_missing e [] missing = missing"
| "collect_missing e (varName # rest) missing =
     collect_missing e rest (if \<not> truthy (e varName) then missing @ [varName] else missing)"

definition missing_message :: "string list \<Rightarrow> string" where
  "missing_message missing =
     ''Missing required environment variables: '' @ join '', '' missing @ newline @
     ''Please ensure your .env file includes all required variables.'' @ newline @
     ''See README.md for setup instructions.''"

definition invalid_private_key_message :: string where
  "invalid_private_key_message =
     ''Invalid PRIVATE_KEY format. Must be a 64-character hexadecimal string (with or without 0x prefix).''"

definition invalid_registry_address_message :: string where
  "invalid_registry_address_message =
     ''Invalid SCHEMA_REGISTRY_ADDRESS format. Must be a valid Ethereum address.''"

definition validateEnvironment :: "env \<Rightarrow> js_error + config" where
  "validateEnvironment e =
     (let missing = collect_missing e requiredVars [] in
      if length missing > 0 then Inl (Error (missing_message missing))
      else
        let privateKey = e ''PRIVATE_KEY'' in
        if \<not> test private_key_re (toString privateKey) then Inl (Error invalid_private_key_message)
        else
          let registryAddress = e ''SCHEMA_REGISTRY_ADDRESS'' in
          if \<not> test registry_address_re (toString registryAddress)
          then Inl (Error invalid_registry_address_message)
          else
            (case privateKey of
               None \<Rightarrow> Inl (TypeError ''startsWith'')
             | Some k \<Rightarrow>
                 Inr \<lparr>rpcUrl = e ''RPC_URL'',
                      privateKey = (if startsWith k ''0x'' then k else ''0x'' @ k),
                      schemaRegistryAddress = registryAddress\<rparr>))"


text \<open>
  The credential rule in the specification's words: exactly 64 hexadecimal characters, with
  an optional \<open>0x\<close> prefix; and the address rule: \<open>0x\<close> followed by exactly 40 hexadecimal
  characters. They are compared with the patterns of the source below.
\<close>

definition hex_char :: "char \<Rightarrow> bool" where
  "hex_char c = (c \<in> set ''0123456789abcdefABCDEF'')"

definition is_hex :: "nat \<Rightarrow> string \<Rightarrow> bool" where
  "is_hex n body = (length body = n \<and> list_all hex_char body)"

definition spec_credential_ok :: "string \<Rightarrow> bool" where
  "spec_credential_ok s = (is_hex 64 s \<or> (prefix ''0x'' s \<and> is_hex 64 (drop 2 s)))"

definition spec_address_ok :: "string \<Rightarrow> bool" where
  "spec_address_ok s = (prefix ''0x'' s \<and> is_hex 40 (drop 2 s))"


section \<open>The registration script: the network and the registry\<close>

text \<open>
  The provider, the wallet, the registry and the pending transaction belong to \<open>ethers\<close> and
  to the EAS SDK. Each of their calls either throws or returns; the outcomes are parameters
  of the model, collected in a \<open>chain\<close>. Creating the provider and the registry object is
  taken not to throw.
\<close>

datatype provider = JsonRpcProvider jstr

datatype signer = Wallet string provider

record network =
  name :: string
  chainId :: nat

record log_entry =
  topics :: "string list option"

record receipt =
  logs :: "log_entry list option"
  transactionHash :: jstr
  hash :: jstr

text \<open>
  What \<open>schemaRegistry.register\<close> resolves to: the identifier itself
  (\<open>typeof transaction === 'string'\<close>), or a pending transaction, given by what its
  \<open>wait()\<close> does.
\<close>

datatype registration =
    SchemaUID string
  | Pending "js_error + receipt"

record schema_request =
  schema :: string
  resolverAddress :: string
  revocable :: bool

record chain =
  getNetwork :: "provider \<Rightarrow> js_error + network"
  newWallet :: "string \<Rightarrow> provider \<Rightarrow> js_error + signer"
  getAddress :: "signer \<Rightarrow> js_error + string"
  getBalance :: "provider \<Rightarrow> string \<Rightarrow> js_error + nat"
  register :: "jstr \<Rightarrow> signer \<Rightarrow> schema_request \<Rightarrow> js_error + registration"

text \<open>The calls made on those objects, in the order they are made.\<close>

datatype effect = CallGetNetwork | CallGetAddress | CallGetBalance | CallRegister | CallWait


section \<open>The registration script: \<open>connectToNetwork\<close>\<close>

text \<open>The \<open>try\<close> block: the first call that throws ends it.\<close>

definition connect_try :: "chain \<Rightarrow> config \<Rightarrow> effect list \<times> (js_error + provider \<times> signer)" where
  "connect_try w cfg =
     (let provider = JsonRpcProvider (rpcUrl cfg) in
      case getNetwork w provider of
        Inl error \<Rightarrow> ([CallGetNetwork], Inl error)
      | Inr network \<Rightarrow>
          (case newWallet w (privateKey cfg) provider of
             Inl error \<Rightarrow> ([CallGetNetwork], Inl error)
           | Inr signer \<Rightarrow>
               (case getAddress w signer of
                  Inl error \<Rightarrow> ([CallGetNetwork, CallGetAddress], Inl error)
                | Inr address \<Rightarrow>
                    (case getBalance w provider address of
                       Inl error \<Rightarrow> ([CallGetNetwork, CallGetAddress, CallGetBalance], Inl error)
                     | Inr balance \<Rightarrow>
                         ([CallGetNetwork, CallGetAddress, CallGetBalance],
                          Inr (provider, signer))))))"

text \<open>The \<open>catch\<close> block: network errors are re-raised with a new message, others unchanged.\<close>

definition connect_catch :: "js_error \<Rightarrow> js_error" where
  "connect_catch error =
     (if code error = Some ''NETWORK_ERROR'' \<or> code error = Some ''TIMEOUT''
      then Error (''Network connection failed: '' @ toString (message error) @ newline @
                  ''Please check your RPC_URL and internet connection.'')
      else error)"

definition connectToNetwork :: "chain \<Rightarrow> config \<Rightarrow> effect list \<times> (js_error + provider \<times> signer)" where
  "connectToNetwork w cfg =
     (case connect_try w cfg of
        (fx, Inl error) \<Rightarrow> (fx, Inl (connect_catch error))
      | (fx, Inr r) \<Rightarrow> (fx, Inr r))"


section \<open>The registration script: \<open>registerSchema\<close>\<close>

definition public_review_schema :: schema_request where
  "public_review_schema =
     \<lparr>schema = ''string platformId,string itemId,string reviewText,uint8 rating'',
      resolverAddress = ''0x0000000000000000000000000000000000000000'',
      revocable = True\<rparr>"

text \<open>
  The identifier read from a receipt: \<open>receipt.logs[0].topics[1]\<close> when
  \<open>receipt.logs\<close> is there and non-empty and \<open>receipt.logs[0].topics\<close> is there with more
  than one entry; otherwise \<open>receipt.transactionHash || receipt.hash\<close>.
\<close>

definition receipt_uid :: "receipt \<Rightarrow> jstr" where
  "receipt_uid r =
     (case logs r of
        Some (l # ls) \<Rightarrow>
          (case topics l of
             Some (t0 # t1 # ts) \<Rightarrow> Some t1
           | _ \<Rightarrow> js_or (transactionHash r) (hash r))
      | _ \<Rightarrow> js_or (transactionHash r) (hash r))"

definition insufficient_funds_message :: string where
  "insufficient_funds_message =
     ''Insufficient funds to pay for gas.'' @ newline @
     ''Get Base Sepolia testnet ETH from: https://www.coinbase.com/faucets/base-ethereum-sepolia-faucet''"

definition nonce_message :: string where
  "nonce_message = ''Transaction nonce issue. Please try again in a few moments.''"

definition already_exists_message :: string where
  "already_exists_message =
     ''Schema already exists. This schema may have been registered previously.'' @ newline @
     ''Check your transaction history or use the existing schema UID.''"

text \<open>The \<open>catch\<close> block of \<open>registerSchema\<close>: the checks in the order of the source.\<close>

definition register_catch :: "js_error \<Rightarrow> js_error" where
  "register_catch error =
     (if code error = Some ''INSUFFICIENT_FUNDS'' then Error insufficient_funds_message
      else if code error = Some ''NONCE_EXPIRED'' \<or> code error = Some ''REPLACEMENT_UNDERPRICED''
      then Error nonce_message
      else if truthy (message error) \<and> includes_str (toString (message error)) ''already exists''
      then Error already_exists_message
      else Error (''Schema registration failed: '' @ toString (message error)))"

definition registerSchema :: "chain \<Rightarrow> signer \<Rightarrow> jstr \<Rightarrow> effect list \<times> (js_error + jstr)" where
  "registerSchema w signer registryAddress =
     (case register w registryAddress signer public_review_schema of
        Inl error \<Rightarrow> ([CallRegister], Inl (register_catch error))
      | Inr (SchemaUID schemaUID) \<Rightarrow> ([CallRegister], Inr (Some schemaUID))
      | Inr (Pending wait) \<Rightarrow>
          (case wait of
             Inl error \<Rightarrow> ([CallRegister, CallWait], Inl (register_catch error))
           | Inr receipt \<Rightarrow> ([CallRegister, CallWait], Inr (receipt_uid receipt))))"


section \<open>The registration script: \<open>main\<close>\<close>

text \<open>\<open>main\<close> ends in \<open>process.exit\<close>; the model returns the calls made and the exit code.\<close>

definition main :: "env \<Rightarrow> chain \<Rightarrow> effect list \<times> nat" where
  "main e w =
     (case validateEnvironment e of
        Inl error \<Rightarrow> ([], 1)
      | Inr cfg \<Rightarrow>
          (case connectToNetwork w cfg of
             (fx, Inl error) \<Rightarrow> (fx, 1)
           | (fx, Inr (provider, signer)) \<Rightarrow>
               (case registerSchema w signer (schemaRegistryAddress cfg) of
                  (fx', Inl error) \<Rightarrow> (fx @ fx', 1)
                | (fx', Inr schemaUID) \<Rightarrow> (fx @ fx', 0))))"


section \<open>The HTTP service\<close>

text \<open>
  The liveness route. \<open>testConnection\<close> comes from the database module; what it does (it
  throws, or it resolves to a boolean) is a parameter, and so is the clock read by
  \<open>new Date().toISOString()\<close>.
\<close>

record health_body =
  status :: string
  database :: string
  version :: string
  timestamp :: string
  error :: jstr

record response =
  statusCode :: nat
  body :: health_body

definition health_handler :: "js_error + bool \<Rightarrow> string \<Rightarrow> response" where
  "health_handler testConnection now =
     (case testConnection of
        Inr dbConnected \<Rightarrow>
          \<lparr>statusCode = 200,
           body = \<lparr>status = ''healthy'',
                   database = (if dbConnected then ''connected'' else ''disconnected''),
                   version = ''0.1.0'',
                   timestamp = now,
                   error = None\<rparr>\<rparr>
      | Inl err \<Rightarrow>
          \<lparr>statusCode = 503,
           body = \<lparr>status = ''unhealthy'',
                   database = ''disconnected'',
                   version = ''0.1.0'',
                   timestamp = now,
                   error = message err\<rparr>\<rparr>)"

text \<open>
  Shutdown. The names the module binds are its \<open>const\<close> declarations and what Node provides
  to a module; the value of \<open>app.listen(...)\<close> is not bound to any name. The handler of
  \<open>SIGTERM\<close> evaluates \<open>server.close(...)\<close>: reading a name that is not bound throws a
  \<open>ReferenceError\<close>; \<open>close\<close> on an HTTP server stops the listener.
\<close>

datatype binding = Library | Function | ExpressApp | Port | NodeObject | HttpServer

definition module_scope :: "(string \<times> binding) list" where
  "module_scope =
     [(''express'', Library), (''cors'', Library), (''morgan'', Library), (''dotenv'', Library),
      (''testConnection'', Function), (''app'', ExpressApp), (''PORT'', Port),
      (''require'', NodeObject), (''module'', NodeObject), (''process'', NodeObject),
      (''console'', NodeObject)]"

definition ReferenceError :: "string \<Rightarrow> js_error" where
  "ReferenceError ident = Error (ident @ '' is not defined'')"

record service =
  listening :: bool

text \<open>\<open>app.listen(PORT, ...)\<close> opens the listener.\<close>

definition listen :: service where
  "listen = \<lparr>listening = True\<rparr>"

definition sigterm_handler :: "service \<Rightarrow> (js_error + unit) \<times> service" where
  "sigterm_handler s =
     (case map_of module_scope ''server'' of
        None \<Rightarrow> (Inl (ReferenceError ''server''), s)
      | Some HttpServer \<Rightarrow> (Inr (), s\<lparr>listening := False\<rparr>)
      | Some other \<Rightarrow> (Inl (Error ''server.close is not a function''), s))"


section \<open>Sample inputs\<close>

definition example_env :: env where
  "example_env =
     [''RPC_URL'' \<mapsto> ''https://sepolia.base.org'',
      ''PRIVATE_KEY'' \<mapsto> ''ac0974bec39a17e36ba4a6b4d238ff944bacb478cbed5efcae784d7bf4f2ff80'',
      ''SCHEMA_REGISTRY_ADDRESS'' \<mapsto> ''0x4200000000000000000000000000000000000020'']"

definition example_config :: config where
  "example_config =
     \<lparr>rpcUrl = Some ''https://sepolia.base.org'',
      privateKey = ''0xac0974bec39a17e36ba4a6b4d238ff944bacb478cbed5efcae784d7bf4f2ff80'',
      schemaRegistryAddress = Some ''0x4200000000000000000000000000000000000020''\<rparr>"




definition example_chain :: "js_error + registration \<Rightarrow> chain" where
  "example_chain r =
     \<lparr>getNetwork = (\<lambda>p. Inr \<lparr>name = ''base-sepolia'', chainId = 84532\<rparr>),
      newWallet = (\<lambda>k p. Inr (Wallet k p)),
      getAddress = (\<lambda>s. Inr ''0xf39Fd6e51aad88F6F4ce6aB8827279cffFb92266''),
      getBalance = (\<lambda>p a. Inr 0),
      register = (\<lambda>a s q. r)\<rparr>"

definition example_signer :: signer where
  "example_signer =
     Wallet ''0xac0974bec39a17e36ba4a6b4d238ff944bacb478cbed5efcae784d7bf4f2ff80''
       (JsonRpcProvider (Some ''https://sepolia.base.org''))"

definition example_address :: jstr where
  "example_address = Some ''0x4200000000000000000000000000000000000020''"



section \<open>Strings and patterns\<close>

lemma includes_str_iff: "includes_str s sub \<longleftrightarrow> (\<exists>p q. s = p @ sub @ q)"
proof (induction s)
  case Nil
  then show ?case by auto
next
  case (Cons c cs)
  have "(\<exists>p q. c # cs = p @ sub @ q) \<longleftrightarrow> prefix sub (c # cs) \<or> (\<exists>p q. cs = p @ sub @ q)"
    using sublist_Cons_right[of sub c cs] by (simp add: sublist_def)
  with Cons show ?case by simp
qed

lemma includes_str_append: "includes_str b v \<Longrightarrow> includes_str (a @ b @ c) v"
  unfolding includes_str_iff by (metis append.assoc)

lemma includes_str_join: "v \<in> set xs \<Longrightarrow> includes_str (join sep xs) v"
proof (induction sep xs rule: join.induct)
  case (1 sep)
  then show ?case by simp
next
  case (2 sep x)
  then show ?case by (simp add: includes_str_iff) (metis append_Nil append_Nil2)
next
  case (3 sep x y ys)
  show ?case
  proof (cases "v = x")
    case True
    then show ?thesis using includes_str_iff by (metis append_Nil join.simps(3))
  next
    case False
    with 3 have "includes_str (join sep (y # ys)) v" by simp
    then show ?thesis using includes_str_append[of "join sep (y # ys)" v "x @ sep" "[]"] by simp
  qed
qed

lemma rmatch_rep_class:
  "rmatch (rep n (Class rs)) s =
     (if n \<le> length s \<and> (\<forall>c\<in>set (take n s). in_class rs c) then [drop n s] else [])"
proof (induction n arbitrary: s)
  case 0
  then show ?case by simp
next
  case (Suc n)
  show ?case
  proof (cases s)
    case Nil
    then show ?thesis by simp
  next
    case (Cons c cs)
    show ?thesis
    proof (cases "in_class rs c")
      case True
      with Cons show ?thesis using Suc[of cs] by simp
    next
      case False
      with Cons show ?thesis by simp
    qed
  qed
qed

lemma in_class_hex: "in_class [(CHR ''0'', CHR ''9''), (CHR ''a'', CHR ''f''), (CHR ''A'', CHR ''F'')] c = hex_char c"
proof -
  define n :: nat where "n = of_char c"
  have eq: "\<And>d. (c = d) = (n = of_char d)"
    by (simp add: n_def)
  have "hex_char c \<longleftrightarrow> n \<in> {48..57} \<union> {97..102} \<union> {65..70}"
    unfolding hex_char_def by (simp add: eq) arith
  moreover have "in_class [(CHR ''0'', CHR ''9''), (CHR ''a'', CHR ''f''), (CHR ''A'', CHR ''F'')] c
      \<longleftrightarrow> n \<in> {48..57} \<union> {97..102} \<union> {65..70}"
    by (auto simp: n_def)
  ultimately show ?thesis by simp
qed

lemma rmatch_rep_hex_full: "[] \<in> set (rmatch (rep n hex_class) t) \<longleftrightarrow> is_hex n t"
proof -
  have "[] \<in> set (rmatch (rep n hex_class) t) \<longleftrightarrow>
        n \<le> length t \<and> (\<forall>c\<in>set (take n t). hex_char c) \<and> drop n t = []"
    by (simp only: hex_class_def rmatch_rep_class in_class_hex) auto
  also have "\<dots> \<longleftrightarrow> length t = n \<and> (\<forall>c\<in>set t. hex_char c)"
    by auto
  finally show ?thesis by (simp add: is_hex_def list_all_iff)
qed

lemma test_private_key_re: "test private_key_re s = spec_credential_ok s"
  by (auto simp: test_def private_key_re_def spec_credential_ok_def rmatch_rep_hex_full numeral_2_eq_2)

lemma test_registry_address_re: "test registry_address_re s = spec_address_ok s"
  by (auto simp: test_def registry_address_re_def spec_address_ok_def rmatch_rep_hex_full numeral_2_eq_2)

lemma spec_credential_nonempty: "spec_credential_ok k \<Longrightarrow> k \<noteq> []"
  by (auto simp: spec_credential_ok_def is_hex_def)

lemma spec_address_nonempty: "spec_address_ok k \<Longrightarrow> k \<noteq> []"
  by (auto simp: spec_address_ok_def is_hex_def)



section \<open>Configuration validation\<close>

lemma collect_missing_filter:
  "collect_missing e vs acc = acc @ filter (\<lambda>v. \<not> truthy (e v)) vs"
  by (induction vs arbitrary: acc) auto

lemma missing_nil:
  "collect_missing e requiredVars [] = [] \<longleftrightarrow>
     truthy (e ''RPC_URL'') \<and> truthy (e ''PRIVATE_KEY'') \<and> truthy (e ''SCHEMA_REGISTRY_ADDRESS'')"
  by (simp add: collect_missing_filter requiredVars_def filter_empty_conv)

lemma validate_example_env: "validateEnvironment example_env = Inr example_config"
proof -
  have m: "collect_missing example_env requiredVars [] = []"
    by (simp add: missing_nil example_env_def)
  have k: "test private_key_re ''ac0974bec39a17e36ba4a6b4d238ff944bacb478cbed5efcae784d7bf4f2ff80''"
    by (simp add: test_private_key_re spec_credential_ok_def is_hex_def hex_char_def)
  have a: "test registry_address_re ''0x4200000000000000000000000000000000000020''"
    by (simp add: test_registry_address_re spec_address_ok_def is_hex_def hex_char_def)
  have pk: "example_env ''PRIVATE_KEY'' = Some ''ac0974bec39a17e36ba4a6b4d238ff944bacb478cbed5efcae784d7bf4f2ff80''"
    by (simp add: example_env_def)
  have ad: "example_env ''SCHEMA_REGISTRY_ADDRESS'' = Some ''0x4200000000000000000000000000000000000020''"
    by (simp add: example_env_def)
  have rp: "example_env ''RPC_URL'' = Some ''https://sepolia.base.org''"
    by (simp add: example_env_def)
  show ?thesis
    unfolding validateEnvironment_def m pk ad rp
    using k a by (simp add: startsWith_def example_config_def)
qed


text \<open>
  Claim C5. With the other two settings valid, a credential string is accepted by
  \<open>validateEnvironment\<close> exactly when it is 64 hexadecimal characters with an optional
  \<open>0x\<close> prefix; and the credential of every returned configuration starts with \<open>0x\<close>: it
  is the given string when that already has the prefix, and \<open>0x\<close> followed by the given
  string otherwise.
\<close>

theorem credential_accepted_iff:
  assumes "truthy (e ''RPC_URL'')"
    and "e ''SCHEMA_REGISTRY_ADDRESS'' = Some a" and "test registry_address_re a"
    and "e ''PRIVATE_KEY'' = Some k"
  shows "((\<exists>cfg. validateEnvironment e = Inr cfg) \<longleftrightarrow> spec_credential_ok k) \<and>
         (\<forall>cfg. validateEnvironment e = Inr cfg \<longrightarrow>
            prefix ''0x'' (privateKey cfg) \<and>
            privateKey cfg = (if prefix ''0x'' k then k else ''0x'' @ k))"
proof (cases "spec_credential_ok k")
  case True
  from assms(3) have a: "a \<noteq> []"
    by (simp add: test_registry_address_re spec_address_nonempty)
  from True have k: "k \<noteq> []" by (rule spec_credential_nonempty)
  have m: "collect_missing e requiredVars [] = []"
    using assms a k by (simp add: missing_nil)
  show ?thesis
    using assms True
    by (simp add: validateEnvironment_def m test_private_key_re startsWith_def)
next
  case False
  show ?thesis
    using assms False
    by (simp add: validateEnvironment_def Let_def test_private_key_re)
qed

theorem credential_accepted_iff_witness:
  "validateEnvironment example_env =
     Inr \<lparr>rpcUrl = Some ''https://sepolia.base.org'',
          privateKey = ''0xac0974bec39a17e36ba4a6b4d238ff944bacb478cbed5efcae784d7bf4f2ff80'',
          schemaRegistryAddress = Some ''0x4200000000000000000000000000000000000020''\<rparr> \<and>
   spec_credential_ok ''ac0974bec39a17e36ba4a6b4d238ff944bacb478cbed5efcae784d7bf4f2ff80''"
proof -
  let ?k = "''ac0974bec39a17e36ba4a6b4d238ff944bacb478cbed5efcae784d7bf4f2ff80''"
  let ?a = "''0x4200000000000000000000000000000000000020''"
  have h1: "truthy (example_env ''RPC_URL'')" by (simp add: example_env_def)
  have h2: "example_env ''SCHEMA_REGISTRY_ADDRESS'' = Some ?a" by (simp add: example_env_def)
  have h3: "test registry_address_re ?a"
    by (simp add: test_registry_address_re spec_address_ok_def is_hex_def hex_char_def)
  have h4: "example_env ''PRIVATE_KEY'' = Some ?k" by (simp add: example_env_def)
  have ok: "spec_credential_ok ?k"
    by (simp add: spec_credential_ok_def is_hex_def hex_char_def)
  from credential_accepted_iff[OF h1 h2 h3 h4] ok
  obtain cfg where c: "validateEnvironment example_env = Inr cfg"
    and p: "privateKey cfg = ''0x'' @ ?k" by auto
  from c have "rpcUrl cfg = Some ''https://sepolia.base.org'' \<and> schemaRegistryAddress cfg = Some ?a"
    by (auto simp: validateEnvironment_def Let_def example_env_def split: if_splits option.splits)
  with c p ok show ?thesis by simp
qed


text \<open>
  Claim C6. When one of the three required settings is absent, \<open>validateEnvironment\<close> fails
  with the error whose message lists the settings that are absent or empty, in the order of
  \<open>requiredVars\<close>; every absent setting occurs in that message by name.
\<close>

theorem missing_settings_all_named:
  assumes "v \<in> set requiredVars" and "e v = None"
  shows "validateEnvironment e =
           Inl (Error (missing_message (filter (\<lambda>u. \<not> truthy (e u)) requiredVars))) \<and>
         (\<forall>u\<in>set requiredVars. e u = None \<longrightarrow>
            includes_str (missing_message (filter (\<lambda>u. \<not> truthy (e u)) requiredVars)) u)"
proof -
  let ?missing = "filter (\<lambda>u. \<not> truthy (e u)) requiredVars"
  have cm: "collect_missing e requiredVars [] = ?missing"
    by (simp add: collect_missing_filter)
  from assms have "v \<in> set ?missing" by simp
  then have ne: "length ?missing > 0" by (metis length_pos_if_in_set)
  have named: "includes_str (missing_message ?missing) u" if "u \<in> set ?missing" for u
    unfolding missing_message_def
    by (rule includes_str_append[OF includes_str_join[OF that]])
  from ne have "validateEnvironment e = Inl (Error (missing_message ?missing))"
    by (simp add: validateEnvironment_def cm del: length_greater_0_conv)
  moreover have "\<forall>u\<in>set requiredVars. e u = None \<longrightarrow> includes_str (missing_message ?missing) u"
    using named by simp
  ultimately show ?thesis by simp
qed

theorem missing_settings_all_named_witness:
  "validateEnvironment [''PRIVATE_KEY'' \<mapsto> ''abc''] =
     Inl (Error (missing_message [''RPC_URL'', ''SCHEMA_REGISTRY_ADDRESS''])) \<and>
   includes_str (missing_message [''RPC_URL'', ''SCHEMA_REGISTRY_ADDRESS'']) ''RPC_URL'' \<and>
   includes_str (missing_message [''RPC_URL'', ''SCHEMA_REGISTRY_ADDRESS'']) ''SCHEMA_REGISTRY_ADDRESS''"
  using missing_settings_all_named[of "''RPC_URL''" "[''PRIVATE_KEY'' \<mapsto> ''abc'']"]
  by (simp add: requiredVars_def)


text \<open>
  Claim C10. A required setting whose value is the empty string is handled as an absent
  one: validation gives the same result as with the setting removed, that result is the
  missing-settings error, the message names the setting, and it is neither of the two format
  errors.
\<close>

theorem empty_setting_as_absent:
  assumes "v \<in> set requiredVars" and "e v = Some []"
  shows "validateEnvironment e = validateEnvironment (e(v := None)) \<and>
         validateEnvironment e =
           Inl (Error (missing_message (filter (\<lambda>u. \<not> truthy (e u)) requiredVars))) \<and>
         includes_str (missing_message (filter (\<lambda>u. \<not> truthy (e u)) requiredVars)) v \<and>
         validateEnvironment e \<noteq> Inl (Error invalid_private_key_message) \<and>
         validateEnvironment e \<noteq> Inl (Error invalid_registry_address_message)"
proof -
  let ?missing = "filter (\<lambda>u. \<not> truthy (e u)) requiredVars"
  let ?e' = "e(v := None)"
  have same: "truthy (?e' u) = truthy (e u)" for u
    using assms(2) by simp
  have cm: "collect_missing e requiredVars [] = ?missing"
    by (simp add: collect_missing_filter)
  have cm': "collect_missing ?e' requiredVars [] = ?missing"
    unfolding collect_missing_filter same by simp
  from assms have v: "v \<in> set ?missing" by simp
  then have ne: "length ?missing > 0" by (metis length_pos_if_in_set)
  have r: "validateEnvironment e = Inl (Error (missing_message ?missing))"
    using ne by (simp add: validateEnvironment_def cm del: length_greater_0_conv)
  have r': "validateEnvironment ?e' = Inl (Error (missing_message ?missing))"
    using ne by (simp add: validateEnvironment_def cm' del: length_greater_0_conv)
  have named: "includes_str (missing_message ?missing) v"
    unfolding missing_message_def
    by (rule includes_str_append[OF includes_str_join[OF v]])
  have d1: "missing_message ?missing \<noteq> invalid_private_key_message"
    by (simp add: missing_message_def invalid_private_key_message_def)
  have d2: "missing_message ?missing \<noteq> invalid_registry_address_message"
    by (simp add: missing_message_def invalid_registry_address_message_def)
  show ?thesis
    using r r' named d1 d2 by (simp add: Error_def)
qed

theorem empty_setting_as_absent_witness:
  "validateEnvironment (example_env(''PRIVATE_KEY'' \<mapsto> [])) =
     Inl (Error (missing_message [''PRIVATE_KEY''])) \<and>
   validateEnvironment (example_env(''PRIVATE_KEY'' \<mapsto> [])) =
     validateEnvironment (example_env(''PRIVATE_KEY'' := None))"
proof -
  let ?e = "example_env(''PRIVATE_KEY'' \<mapsto> [])"
  have h1: "''PRIVATE_KEY'' \<in> set requiredVars" by (simp add: requiredVars_def)
  have h2: "?e ''PRIVATE_KEY'' = Some []" by simp
  have f: "filter (\<lambda>u. \<not> truthy (?e u)) requiredVars = [''PRIVATE_KEY'']"
    by (simp add: requiredVars_def example_env_def)
  have u: "?e(''PRIVATE_KEY'' := None) = example_env(''PRIVATE_KEY'' := None)" by simp
  show ?thesis
    using empty_setting_as_absent[of "''PRIVATE_KEY''" ?e, OF h1 h2, unfolded f u] by blast
qed



section \<open>Schema registration\<close>

text \<open>
  Claim C1, as stated, fails: the error code is looked at before the message. An error with
  the code \<open>INSUFFICIENT_FUNDS\<close> whose message contains \<open>already exists\<close> is reported as
  insufficient funds, which is not the duplicate-schema message.
\<close>

theorem already_exists_counterexample:
  "includes_str ''schema already exists'' ''already exists'' \<and>
   registerSchema
     (example_chain (Inl \<lparr>code = Some ''INSUFFICIENT_FUNDS'', message = Some ''schema already exists''\<rparr>))
     example_signer example_address
     = ([CallRegister], Inl (Error insufficient_funds_message)) \<and>
   Error insufficient_funds_message \<noteq> Error already_exists_message"
  by (simp add: registerSchema_def example_chain_def register_catch_def Error_def
      insufficient_funds_message_def already_exists_message_def)


text \<open>
  Claim C1, amended. A submission error (thrown by \<open>register\<close> or by \<open>wait\<close>) whose message
  contains \<open>already exists\<close> and whose code is none of \<open>INSUFFICIENT_FUNDS\<close>,
  \<open>NONCE_EXPIRED\<close> and \<open>REPLACEMENT_UNDERPRICED\<close> is re-raised as the duplicate-schema
  error.
\<close>

theorem already_exists_maps_to_duplicate:
  assumes "message err = Some m" and "includes_str m ''already exists''"
    and "code err \<noteq> Some ''INSUFFICIENT_FUNDS''"
    and "code err \<noteq> Some ''NONCE_EXPIRED''"
    and "code err \<noteq> Some ''REPLACEMENT_UNDERPRICED''"
    and "register w a s public_review_schema = Inl err \<or>
         register w a s public_review_schema = Inr (Pending (Inl err))"
  shows "snd (registerSchema w s a) = Inl (Error already_exists_message)"
proof -
  from assms(2) have "m \<noteq> []" by auto
  with assms(1-5) have c: "register_catch err = Error already_exists_message"
    by (simp add: register_catch_def)
  from assms(6) show ?thesis
    by (auto simp: registerSchema_def c)
qed

theorem already_exists_maps_to_duplicate_witness:
  "snd (registerSchema
     (example_chain (Inl \<lparr>code = Some ''CALL_EXCEPTION'', message = Some ''schema already exists''\<rparr>))
     example_signer example_address) = Inl (Error already_exists_message)"
proof -
  let ?err = "\<lparr>code = Some ''CALL_EXCEPTION'', message = Some ''schema already exists''\<rparr>"
  have h1: "message ?err = Some ''schema already exists''" by simp
  have h2: "includes_str ''schema already exists'' ''already exists''" by simp
  have h3: "code ?err \<noteq> Some ''INSUFFICIENT_FUNDS''" by simp
  have h4: "code ?err \<noteq> Some ''NONCE_EXPIRED''" by simp
  have h5: "code ?err \<noteq> Some ''REPLACEMENT_UNDERPRICED''" by simp
  have h6: "register (example_chain (Inl ?err)) example_address example_signer public_review_schema = Inl ?err \<or>
            register (example_chain (Inl ?err)) example_address example_signer public_review_schema = Inr (Pending (Inl ?err))"
    by (simp add: example_chain_def)
  show ?thesis
    by (rule already_exists_maps_to_duplicate[OF h1 h2 h3 h4 h5 h6])
qed








text \<open>
  Claim C7. When \<open>register\<close> resolves to a plain string, \<open>registerSchema\<close> returns that
  string, and \<open>register\<close> is the only call it makes: there is no \<open>wait\<close>.
\<close>

theorem plain_string_identifier:
  assumes "register w a s public_review_schema = Inr (SchemaUID uid)"
  shows "registerSchema w s a = ([CallRegister], Inr (Some uid)) \<and>
         CallWait \<notin> set (fst (registerSchema w s a))"
  using assms by (simp add: registerSchema_def)

theorem plain_string_identifier_witness:
  "registerSchema (example_chain (Inr (SchemaUID ''0x5c0f''))) example_signer example_address =
     ([CallRegister], Inr (Some ''0x5c0f'')) \<and>
   CallWait \<notin> set (fst (registerSchema (example_chain (Inr (SchemaUID ''0x5c0f''))) example_signer example_address))"
proof -
  have h: "register (example_chain (Inr (SchemaUID ''0x5c0f''))) example_address example_signer public_review_schema
             = Inr (SchemaUID ''0x5c0f'')"
    by (simp add: example_chain_def)
  show ?thesis by (rule plain_string_identifier[OF h])
qed



section \<open>The workflow as a whole\<close>

lemma connect_try_effects:
  "fst (connect_try w cfg) \<in>
     {[CallGetNetwork], [CallGetNetwork, CallGetAddress],
      [CallGetNetwork, CallGetAddress, CallGetBalance]}"
  by (simp add: connect_try_def Let_def split: sum.splits)

lemma connect_fst: "fst (connectToNetwork w cfg) = fst (connect_try w cfg)"
  by (simp add: connectToNetwork_def split: prod.splits sum.splits)

lemma register_effects:
  "fst (registerSchema w s a) \<in> {[CallRegister], [CallRegister, CallWait]}"
  by (simp add: registerSchema_def split: sum.splits registration.splits)

lemma effects_distinct:
  assumes "fx \<in> {[CallGetNetwork], [CallGetNetwork, CallGetAddress],
                  [CallGetNetwork, CallGetAddress, CallGetBalance]}"
    and "fx' \<in> {[CallRegister], [CallRegister, CallWait]}"
  shows "distinct fx \<and> distinct (fx @ fx')"
  using assms by auto

lemma main_unfold:
  "main e w =
     (case validateEnvironment e of
        Inl err \<Rightarrow> ([], 1)
      | Inr cfg \<Rightarrow>
          (case snd (connectToNetwork w cfg) of
             Inl err \<Rightarrow> (fst (connectToNetwork w cfg), 1)
           | Inr ps \<Rightarrow>
               (fst (connectToNetwork w cfg) @ fst (registerSchema w (snd ps) (schemaRegistryAddress cfg)),
                case snd (registerSchema w (snd ps) (schemaRegistryAddress cfg)) of
                  Inl err \<Rightarrow> 1 | Inr uid \<Rightarrow> 0)))"
  by (simp add: main_def split: sum.splits prod.splits)

lemma main_effects: "distinct (fst (main e w))"
proof (cases "validateEnvironment e")
  case (Inl err)
  then show ?thesis by (simp add: main_unfold)
next
  case (Inr cfg)
  note v = this
  have c: "fst (connectToNetwork w cfg) \<in>
     {[CallGetNetwork], [CallGetNetwork, CallGetAddress],
      [CallGetNetwork, CallGetAddress, CallGetBalance]}"
    unfolding connect_fst by (rule connect_try_effects)
  show ?thesis
  proof (cases "snd (connectToNetwork w cfg)")
    case (Inl err)
    with v effects_distinct[OF c register_effects] show ?thesis
      by (simp add: main_unfold)
  next
    case (Inr ps)
    with v effects_distinct[OF c register_effects[of w "snd ps" "schemaRegistryAddress cfg"]]
    show ?thesis
      by (simp add: main_unfold)
  qed
qed

lemma main_exit_zero:
  "snd (main e w) = 0 \<longleftrightarrow>
      (\<exists>cfg fx p s fx' uid.
          validateEnvironment e = Inr cfg \<and>
          connectToNetwork w cfg = (fx, Inr (p, s)) \<and>
          registerSchema w s (schemaRegistryAddress cfg) = (fx', Inr uid))"
proof (cases "validateEnvironment e")
  case (Inl err)
  then show ?thesis by (simp add: main_def)
next
  case (Inr cfg)
  note v = this
  obtain fx r where c: "connectToNetwork w cfg = (fx, r)" by (cases "connectToNetwork w cfg")
  show ?thesis
  proof (cases r)
    case (Inl err)
    with v c show ?thesis by (simp add: main_def)
  next
    case (Inr ps)
    obtain p s where ps: "ps = (p, s)" by (cases ps)
    obtain fx' r' where g: "registerSchema w s (schemaRegistryAddress cfg) = (fx', r')"
      by (cases "registerSchema w s (schemaRegistryAddress cfg)")
    from v c Inr ps g show ?thesis by (cases r') (simp_all add: main_def)
  qed
qed

lemma main_exit_binary: "snd (main e w) = 0 \<or> snd (main e w) = 1"
  by (simp add: main_unfold split: sum.splits)

lemma connect_example:
  "connectToNetwork (example_chain r) example_config =
     ([CallGetNetwork, CallGetAddress, CallGetBalance], Inr (JsonRpcProvider (Some ''https://sepolia.base.org''), example_signer))"
  by (simp add: connectToNetwork_def connect_try_def Let_def example_chain_def example_config_def example_signer_def)


text \<open>
  Claim C8. The exit code of \<open>main\<close> is 0 exactly when validation, connection and submission
  all return a result, and it is 1 in every other case, that is, as soon as one of them
  raises. No call is made twice: a failure is not retried.
\<close>

theorem main_exit_code:
  "(snd (main e w) = 0 \<longleftrightarrow>
      (\<exists>cfg fx p s fx' uid.
          validateEnvironment e = Inr cfg \<and>
          connectToNetwork w cfg = (fx, Inr (p, s)) \<and>
          registerSchema w s (schemaRegistryAddress cfg) = (fx', Inr uid))) \<and>
   (snd (main e w) = 0 \<or> snd (main e w) = 1) \<and>
   distinct (fst (main e w))"
  using main_exit_zero[of e w] main_exit_binary[of e w] main_effects[of e w] by blast

theorem main_exit_code_witness:
  "snd (main example_env (example_chain (Inr (SchemaUID ''0x5c0f'')))) = 0 \<and>
   snd (main Map.empty (example_chain (Inr (SchemaUID ''0x5c0f'')))) = 1"
proof -
  let ?w = "example_chain (Inr (SchemaUID ''0x5c0f''))"
  have g: "registerSchema ?w example_signer (schemaRegistryAddress example_config) =
             ([CallRegister], Inr (Some ''0x5c0f''))"
    by (simp add: registerSchema_def example_chain_def)
  have ok: "\<exists>cfg fx p s fx' uid.
          validateEnvironment example_env = Inr cfg \<and>
          connectToNetwork ?w cfg = (fx, Inr (p, s)) \<and>
          registerSchema ?w s (schemaRegistryAddress cfg) = (fx', Inr uid)"
    using validate_example_env connect_example[of "Inr (SchemaUID ''0x5c0f'')"] g by blast
  have bad: "\<not> (\<exists>cfg fx p s fx' uid.
          validateEnvironment Map.empty = Inr cfg \<and>
          connectToNetwork ?w cfg = (fx, Inr (p, s)) \<and>
          registerSchema ?w s (schemaRegistryAddress cfg) = (fx', Inr uid))"
    by (simp add: validateEnvironment_def collect_missing_filter requiredVars_def)
  from main_exit_code[of example_env ?w] ok have a: "snd (main example_env ?w) = 0" by simp
  note t = main_exit_code[of Map.empty ?w]
  from t[THEN conjunct1] bad have n: "snd (main Map.empty ?w) \<noteq> 0" by (simp only: simp_thms)
  from t[THEN conjunct2, THEN conjunct1] n have b: "snd (main Map.empty ?w) = 1" by simp
  from a b show ?thesis by simp
qed



section \<open>The liveness route and shutdown\<close>

text \<open>
  Claim C3. On the liveness route, a connectivity check that resolves true gives status 200
  and \<open>database\<close> equal to \<open>connected\<close>; a check that throws gives status 503 and \<open>status\<close>
  equal to \<open>unhealthy\<close>.
\<close>

theorem health_status_codes:
  "statusCode (health_handler (Inr True) now) = 200 \<and>
   database (body (health_handler (Inr True) now)) = ''connected'' \<and>
   statusCode (health_handler (Inl err) now) = 503 \<and>
   status (body (health_handler (Inl err) now)) = ''unhealthy''"
  by (simp add: health_handler_def)

theorem health_status_codes_witness:
  "statusCode (health_handler (Inr True) ''2025-01-01T00:00:00.000Z'') = 200 \<and>
   database (body (health_handler (Inr True) ''2025-01-01T00:00:00.000Z'')) = ''connected'' \<and>
   statusCode (health_handler (Inl (Error ''connect ECONNREFUSED'')) ''2025-01-01T00:00:00.000Z'') = 503 \<and>
   status (body (health_handler (Inl (Error ''connect ECONNREFUSED'')) ''2025-01-01T00:00:00.000Z'')) = ''unhealthy''"
  by (rule health_status_codes)


text \<open>
  Claim C9. A connectivity check that resolves false gives status 200, \<open>status\<close> equal to
  \<open>healthy\<close> and \<open>database\<close> equal to \<open>disconnected\<close>.
\<close>

theorem health_resolved_false:
  "statusCode (health_handler (Inr False) now) = 200 \<and>
   status (body (health_handler (Inr False) now)) = ''healthy'' \<and>
   database (body (health_handler (Inr False) now)) = ''disconnected''"
  by (simp add: health_handler_def)

theorem health_resolved_false_witness:
  "statusCode (health_handler (Inr False) ''2025-01-01T00:00:00.000Z'') = 200 \<and>
   status (body (health_handler (Inr False) ''2025-01-01T00:00:00.000Z'')) = ''healthy'' \<and>
   database (body (health_handler (Inr False) ''2025-01-01T00:00:00.000Z'')) = ''disconnected''"
  by (rule health_resolved_false)


text \<open>
  Claim C2 says that the \<open>SIGTERM\<close> handler closes the listener and does not raise. The
  handler of the source reads the name \<open>server\<close>, which the module never binds: on the
  running service it raises a \<open>ReferenceError\<close> and leaves the listener open.
\<close>

theorem sigterm_handler_raises:
  "sigterm_handler listen = (Inl (ReferenceError ''server''), \<lparr>listening = True\<rparr>)"
  by (simp add: sigterm_handler_def module_scope_def listen_def)


end
